theory Spec2Isabelle
  imports Main
begin

section \<open>Python values\<close>

text \<open>
  The client of \<^verbatim>\<open>nytcampfin.py\<close> handles three sorts of Python objects: the scalars
  that are interpolated into a path template, the decoded JSON bodies of the responses,
  and the keyword arguments of \<^verbatim>\<open>fetch\<close>, one of which (\<^verbatim>\<open>parse\<close>) is usually a function.
  Strings are byte strings (\<^verbatim>\<open>str\<close>); floating-point numbers are left out of the value
  universe. A JSON object is an association list with distinct keys, looked up from the
  front.
\<close>

datatype atom = ANone | ABool bool | AInt int | AStr string

datatype pyval = Atom atom | PList "pyval list" | PDict "(string \<times> pyval) list"

abbreviation PNone :: pyval where "PNone \<equiv> Atom ANone"
abbreviation PInt :: "int \<Rightarrow> pyval" where "PInt i \<equiv> Atom (AInt i)"
abbreviation PStr :: "string \<Rightarrow> pyval" where "PStr s \<equiv> Atom (AStr s)"

subsection \<open>Exceptions\<close>

text \<open>
  Lines 23 to 31 of the source declare \<^verbatim>\<open>NytCampfinError(Exception)\<close> and
  \<^verbatim>\<open>NytNotFoundError(NytCampfinError)\<close>. The built-in classes that the interpreter
  raises inside \<^verbatim>\<open>fetch\<close> are listed with \<^verbatim>\<open>Exception\<close> as their base (the
  intermediate built-in classes are not needed here); \<open>RequestException\<close> stands for
  whatever the HTTP library raises.
\<close>

datatype exc_class =
    Exception
  | NytCampfinError
  | NytNotFoundError
  | KeyError
  | IndexError
  | TypeError
  | ValueError
  | RequestException

fun base_class :: "exc_class \<Rightarrow> exc_class option" where
  "base_class Exception = None"
| "base_class NytCampfinError = Some Exception"
| "base_class NytNotFoundError = Some NytCampfinError"
| "base_class KeyError = Some Exception"
| "base_class IndexError = Some Exception"
| "base_class TypeError = Some Exception"
| "base_class ValueError = Some Exception"
| "base_class RequestException = Some Exception"

fun class_depth :: "exc_class \<Rightarrow> nat" where
  "class_depth Exception = 0"
| "class_depth NytNotFoundError = 2"
| "class_depth _ = 1"

text \<open>\<^verbatim>\<open>issubclass(c, d)\<close>: walk up the bases of \<open>c\<close> until \<open>d\<close> is met.\<close>

function issubclass :: "exc_class \<Rightarrow> exc_class \<Rightarrow> bool" where
  "issubclass c d =
     (if c = d then True
      else (case base_class c of None \<Rightarrow> False | Some b \<Rightarrow> issubclass b d))"
  by pat_completeness auto
termination
proof (relation "measure (\<lambda>(c, d). class_depth c)")
  show "wf (measure (\<lambda>(c, d). class_depth c))" by simp
next
  fix c b d :: exc_class
  assume "base_class c = Some b"
  then have "class_depth b < class_depth c" by (cases c) auto
  then show "((b, d), (c, d)) \<in> measure (\<lambda>(c, d). class_depth c)" by simp
qed

declare issubclass.simps [simp del]

text \<open>
  A raised exception: its class and, where the model tracks it, its message (the
  argument of the two library errors, the missing key of a \<^verbatim>\<open>KeyError\<close>).
\<close>

datatype exn = Exn (exn_class: exc_class) (exn_message: "string option")

text \<open>\<^verbatim>\<open>except handler: ...\<close> catches the exceptions whose class derives from \<open>handler\<close>.\<close>

definition catches :: "exc_class \<Rightarrow> exn \<Rightarrow> bool" where
  "catches handler e = issubclass (exn_class e) handler"

subsection \<open>Keyword arguments\<close>

text \<open>
  A keyword argument is a data value or a callable; a callable applied to a decoded
  body returns a value or raises.
\<close>

datatype kwval = Data pyval | Callable "pyval \<Rightarrow> exn + pyval"

type_synonym kwargs = "string \<rightharpoonup> kwval"

fun callable :: "kwval \<Rightarrow> bool" where
  "callable (Callable f) = True"
| "callable (Data v) = False"

text \<open>Truth value testing, as \<^verbatim>\<open>if x:\<close> and \<^verbatim>\<open>not x\<close> do it.\<close>

fun truthy_atom :: "atom \<Rightarrow> bool" where
  "truthy_atom ANone = False"
| "truthy_atom (ABool b) = b"
| "truthy_atom (AInt i) = (i \<noteq> 0)"
| "truthy_atom (AStr s) = (s \<noteq> [])"

fun truthy :: "pyval \<Rightarrow> bool" where
  "truthy (Atom a) = truthy_atom a"
| "truthy (PList xs) = (xs \<noteq> [])"
| "truthy (PDict kvs) = (kvs \<noteq> [])"

fun truthy_kw :: "kwval \<Rightarrow> bool" where
  "truthy_kw (Data v) = truthy v"
| "truthy_kw (Callable f) = True"

section \<open>Built-in operations used by the client\<close>

subsection \<open>\<^verbatim>\<open>str()\<close> of a scalar\<close>

definition digit_char :: "nat \<Rightarrow> char" where
  "digit_char d = ''0123456789'' ! d"

fun digits :: "nat \<Rightarrow> string" where
  "digits n = (if n < 10 then [digit_char n] else digits (n div 10) @ [digit_char (n mod 10)])"

declare digits.simps [simp del]

fun py_str :: "atom \<Rightarrow> string" where
  "py_str ANone = ''None''"
| "py_str (ABool b) = (if b then ''True'' else ''False'')"
| "py_str (AInt i) = (if i < 0 then CHR ''-'' # digits (nat (- i)) else digits (nat i))"
| "py_str (AStr s) = s"

subsection \<open>The \<^verbatim>\<open>%\<close> operator on a format string and a tuple\<close>

text \<open>
  \<^verbatim>\<open>fmt % args\<close> scans \<open>fmt\<close> from the left. \<^verbatim>\<open>%s\<close> takes the next argument and
  inserts its \<^verbatim>\<open>str()\<close>; \<^verbatim>\<open>%%\<close> inserts a percent sign; a lone \<^verbatim>\<open>%\<close> at the end is a
  \<^verbatim>\<open>ValueError\<close>; a \<^verbatim>\<open>%s\<close> with no argument left and arguments left over at the end
  are \<^verbatim>\<open>TypeError\<close>s. Every template of the library uses \<^verbatim>\<open>%s\<close> only. What Python does
  at any other conversion (flags, widths, \<^verbatim>\<open>%d\<close>, mapping keys, ...) is not spelt out:
  it is the parameter \<open>other\<close>, which receives the text after the \<^verbatim>\<open>%\<close> and the arguments
  not yet used, and every theorem below holds for each such function.
\<close>

type_synonym percent_conv = "string \<Rightarrow> atom list \<Rightarrow> exn + string"

fun py_format :: "percent_conv \<Rightarrow> string \<Rightarrow> atom list \<Rightarrow> exn + string" where
  "py_format other [] [] = Inr []"
| "py_format other [] (a # as) = Inl (Exn TypeError None)"
| "py_format other (c # cs) as =
     (if c \<noteq> CHR ''%'' then
        (case py_format other cs as of Inl e \<Rightarrow> Inl e | Inr r \<Rightarrow> Inr (c # r))
      else
        (case cs of
           [] \<Rightarrow> Inl (Exn ValueError None)
         | d # ds \<Rightarrow>
             if d = CHR ''%'' then
               (case py_format other ds as of Inl e \<Rightarrow> Inl e | Inr r \<Rightarrow> Inr (CHR ''%'' # r))
             else if d = CHR ''s'' then
               (case as of
                  [] \<Rightarrow> Inl (Exn TypeError None)
                | a # as' \<Rightarrow>
                    (case py_format other ds as' of
                       Inl e \<Rightarrow> Inl e
                     | Inr r \<Rightarrow> Inr (py_str a @ r)))
             else other cs as))"

subsection \<open>\<^verbatim>\<open>str.lower\<close> and \<^verbatim>\<open>str.startswith\<close>\<close>

definition lower_char :: "char \<Rightarrow> char" where
  "lower_char c =
     (case map_of (zip ''ABCDEFGHIJKLMNOPQRSTUVWXYZ'' ''abcdefghijklmnopqrstuvwxyz'') c of
        None \<Rightarrow> c
      | Some l \<Rightarrow> l)"

definition lower :: "string \<Rightarrow> string" where
  "lower s = map lower_char s"

definition startswith :: "string \<Rightarrow> string \<Rightarrow> bool" where
  "startswith s p = (take (length p) s = p)"

subsection \<open>Subscription, iteration, joining, item assignment\<close>

text \<open>\<^verbatim>\<open>v[k]\<close> for a string key \<open>k\<close>: only a dict accepts it.\<close>

fun subscript_key :: "pyval \<Rightarrow> string \<Rightarrow> exn + pyval" where
  "subscript_key (PDict kvs) k =
     (case map_of kvs k of None \<Rightarrow> Inl (Exn KeyError (Some k)) | Some v \<Rightarrow> Inr v)"
| "subscript_key (PList xs) k = Inl (Exn TypeError None)"
| "subscript_key (Atom a) k = Inl (Exn TypeError None)"

text \<open>
  \<^verbatim>\<open>v[i]\<close> for an integer \<open>i\<close>: lists and strings count negative indices from the end and
  raise \<^verbatim>\<open>IndexError\<close> out of range; a JSON object has string keys only, so an integer
  key is missing.
\<close>

definition index_list :: "'a list \<Rightarrow> int \<Rightarrow> 'a option" where
  "index_list xs i =
     (if 0 \<le> i \<and> i < int (length xs) then Some (xs ! nat i)
      else if i < 0 \<and> - int (length xs) \<le> i then Some (xs ! nat (int (length xs) + i))
      else None)"

fun subscript_index :: "pyval \<Rightarrow> int \<Rightarrow> exn + pyval" where
  "subscript_index (PList xs) i =
     (case index_list xs i of None \<Rightarrow> Inl (Exn IndexError None) | Some v \<Rightarrow> Inr v)"
| "subscript_index (Atom (AStr s)) i =
     (case index_list s i of None \<Rightarrow> Inl (Exn IndexError None) | Some c \<Rightarrow> Inr (PStr [c]))"
| "subscript_index (PDict kvs) i = Inl (Exn KeyError (Some (py_str (AInt i))))"
| "subscript_index (Atom a) i = Inl (Exn TypeError None)"

text \<open>
  \<^verbatim>\<open>for e in v\<close>: the elements of a list, the characters of a string, the keys of a dict;
  anything else is not iterable.
\<close>

fun py_iter :: "pyval \<Rightarrow> exn + pyval list" where
  "py_iter (PList xs) = Inr xs"
| "py_iter (Atom (AStr s)) = Inr (map (\<lambda>c. PStr [c]) s)"
| "py_iter (PDict kvs) = Inr (map (\<lambda>kv. PStr (fst kv)) kvs)"
| "py_iter (Atom a) = Inl (Exn TypeError None)"

text \<open>\<^verbatim>\<open>sep.join(items)\<close>: every item must be a string.\<close>

fun as_strings :: "pyval list \<Rightarrow> string list option" where
  "as_strings [] = Some []"
| "as_strings (Atom (AStr s) # vs) =
     (case as_strings vs of None \<Rightarrow> None | Some ss \<Rightarrow> Some (s # ss))"
| "as_strings (v # vs) = None"

fun intersperse :: "string \<Rightarrow> string list \<Rightarrow> string" where
  "intersperse sep [] = []"
| "intersperse sep [s] = s"
| "intersperse sep (s # t # ss) = s @ sep @ intersperse sep (t # ss)"

definition py_join :: "string \<Rightarrow> pyval list \<Rightarrow> exn + string" where
  "py_join sep vs =
     (case as_strings vs of
        None \<Rightarrow> Inl (Exn TypeError None)
      | Some ss \<Rightarrow> Inr (intersperse sep ss))"

text \<open>\<^verbatim>\<open>v[k] = x\<close> for a string key: a dict is updated, anything else refuses.\<close>

fun dict_update :: "string \<Rightarrow> pyval \<Rightarrow> (string \<times> pyval) list \<Rightarrow> (string \<times> pyval) list" where
  "dict_update k x [] = [(k, x)]"
| "dict_update k x (kv # kvs) =
     (if fst kv = k then (k, x) # kvs else kv # dict_update k x kvs)"

fun setitem_key :: "pyval \<Rightarrow> string \<Rightarrow> pyval \<Rightarrow> exn + pyval" where
  "setitem_key (PDict kvs) k x = Inr (PDict (dict_update k x kvs))"
| "setitem_key (PList xs) k x = Inl (Exn TypeError None)"
| "setitem_key (Atom a) k x = Inl (Exn TypeError None)"

section \<open>The transport and the module globals\<close>

text \<open>
  \<^verbatim>\<open>requests.get(url, params=...)\<close> answers with a response or raises. Of the response
  the client reads \<^verbatim>\<open>status_code\<close> and \<^verbatim>\<open>json\<close>, the decoded body (an attribute of the
  response in the version of the library the code is written for; \<^verbatim>\<open>None\<close> when the body
  is not JSON).
\<close>

record response =
  status_code :: int
  json :: pyval

record request =
  url :: string
  params :: kwargs

text \<open>
  What surrounds a call: the HTTP library, the module global \<^verbatim>\<open>DEBUG\<close> (\<^verbatim>\<open>False\<close> in
  the source, line 13, and assignable), and the conversions of \<^verbatim>\<open>%\<close> that are not spelt
  out above.
\<close>

record env =
  requests_get :: "string \<Rightarrow> kwargs \<Rightarrow> exn + response"
  DEBUG :: bool
  percent_other :: percent_conv

definition CURRENT_CYCLE :: atom where
  "CURRENT_CYCLE = AInt 2012"

section \<open>The client\<close>

record client =
  apikey :: pyval

definition BASE_URI :: string where
  "BASE_URI = ''http://api.nytimes.com/svc/elections/us/v3/finances''"

text \<open>The default of \<^verbatim>\<open>parse\<close>, \<^verbatim>\<open>lambda r: r['results'][0]\<close> (line 45).\<close>

definition first_result :: "pyval \<Rightarrow> exn + pyval" where
  "first_result r =
     (case subscript_key r ''results'' of
        Inl e \<Rightarrow> Inl e
      | Inr rs \<Rightarrow> subscript_index rs 0)"

text \<open>The \<^verbatim>\<open>parse\<close> of the list endpoints, \<^verbatim>\<open>lambda r: r['results']\<close>.\<close>

definition all_results :: "pyval \<Rightarrow> exn + pyval" where
  "all_results r = subscript_key r ''results''"

text \<open>
  What \<^verbatim>\<open>fetch\<close> does with the response (lines 55 to 69), given the \<^verbatim>\<open>parse\<close> it
  holds and the URL it requested: a status other than 200 and 304 raises one of the two
  library errors with the joined \<^verbatim>\<open>errors\<close> of the body; otherwise the body is handed
  to \<^verbatim>\<open>parse\<close> when that is callable, and returned as it is when not.
\<close>

definition respond :: "env \<Rightarrow> kwval \<Rightarrow> string \<Rightarrow> response \<Rightarrow> exn + pyval" where
  "respond env parse u resp =
     (if status_code resp \<noteq> 200 \<and> status_code resp \<noteq> 304 then
        (case subscript_key (json resp) ''errors'' of
           Inl e \<Rightarrow> Inl e
         | Inr es \<Rightarrow>
             (case py_iter es of
                Inl e \<Rightarrow> Inl e
              | Inr items \<Rightarrow>
                  (case py_join ''; '' items of
                     Inl e \<Rightarrow> Inl e
                   | Inr errors \<Rightarrow>
                       if status_code resp = 404
                       then Inl (Exn NytNotFoundError (Some errors))
                       else Inl (Exn NytCampfinError (Some errors)))))
      else
        (case parse of
           Callable f \<Rightarrow>
             (case f (json resp) of
                Inl e \<Rightarrow> Inl e
              | Inr result \<Rightarrow>
                  if DEBUG env then setitem_key result ''_url'' (PStr u) else Inr result)
         | Data v \<Rightarrow> Inr (json resp)))"

text \<open>\<^verbatim>\<open>kwargs.pop('parse', lambda r: r['results'][0])\<close>: the value popped (line 45).\<close>

definition popped_parse :: "kwargs \<Rightarrow> kwval" where
  "popped_parse kwargs =
     (case kwargs ''parse'' of None \<Rightarrow> Callable first_result | Some p \<Rightarrow> p)"

text \<open>
  \<^verbatim>\<open>Client.fetch\<close> (lines 42 to 69). The result pairs the requests that were sent, in
  order, with the outcome of the call: \<open>Inl\<close> an exception, \<open>Inr\<close> the value returned.
  \<^verbatim>\<open>kwargs['offset']\<close> raises \<^verbatim>\<open>KeyError\<close> when the key is missing, and a failing
  \<^verbatim>\<open>%\<close> raises before anything is sent.
\<close>

definition fetch :: "env \<Rightarrow> 'a client_scheme \<Rightarrow> string \<Rightarrow> atom list \<Rightarrow> kwargs \<Rightarrow> request list \<times> (exn + pyval)" where
  "fetch env self path args kwargs =
     (case kwargs ''offset'' of
        None \<Rightarrow> ([], Inl (Exn KeyError (Some ''offset'')))
      | Some off \<Rightarrow>
          let kwargs1 = (if \<not> truthy_kw off then kwargs(''offset'' \<mapsto> Data (PInt 0)) else kwargs);
              parse = popped_parse kwargs1;
              kwargs2 = kwargs1(''parse'' := None);
              kwargs3 = kwargs2(''api-key'' \<mapsto> Data (apikey self));
              formatted =
                (if \<not> startswith (lower path) BASE_URI
                 then py_format (percent_other env) (BASE_URI @ (path @ ''.json'')) args
                 else Inr (path @ ''?''))
          in (case formatted of
                Inl e \<Rightarrow> ([], Inl e)
              | Inr u \<Rightarrow>
                  ([\<lparr>url = u, params = kwargs3\<rparr>],
                   (case requests_get env u kwargs3 of
                      Inl e \<Rightarrow> Inl e
                    | Inr resp \<Rightarrow> respond env parse u resp))))"

subsection \<open>\<^verbatim>\<open>FilingsClient\<close>\<close>

text \<open>
  Each method takes the values of all its parameters; a caller that leaves out
  \<^verbatim>\<open>cycle\<close> or \<^verbatim>\<open>offset\<close> passes the defaults \<open>CURRENT_CYCLE\<close> and \<open>PInt 0\<close>, and
  \<open>ANone\<close> for the \<^verbatim>\<open>chamber\<close> and \<^verbatim>\<open>district\<close> of \<^verbatim>\<open>seats\<close>.
\<close>

type_synonym run = "request list \<times> (exn + pyval)"

definition FilingsClient_today :: "env \<Rightarrow> 'a client_scheme \<Rightarrow> atom \<Rightarrow> pyval \<Rightarrow> run" where
  "FilingsClient_today env self cycle offset =
     fetch env self ''/%s/filings'' [cycle]
       [''offset'' \<mapsto> Data offset, ''parse'' \<mapsto> Callable all_results]"

definition FilingsClient_date :: "env \<Rightarrow> 'a client_scheme \<Rightarrow> atom \<Rightarrow> atom \<Rightarrow> atom \<Rightarrow> atom \<Rightarrow> pyval \<Rightarrow> run" where
  "FilingsClient_date env self year month day cycle offset =
     fetch env self ''/%s/filings/%s/%s/%s'' [cycle, year, month, day]
       [''offset'' \<mapsto> Data offset, ''parse'' \<mapsto> Callable all_results]"

definition FilingsClient_form_types :: "env \<Rightarrow> 'a client_scheme \<Rightarrow> atom \<Rightarrow> pyval \<Rightarrow> run" where
  "FilingsClient_form_types env self cycle offset =
     fetch env self ''/%s/filings/types'' [cycle]
       [''offset'' \<mapsto> Data offset, ''parse'' \<mapsto> Callable all_results]"

definition FilingsClient_by_type :: "env \<Rightarrow> 'a client_scheme \<Rightarrow> atom \<Rightarrow> atom \<Rightarrow> pyval \<Rightarrow> run" where
  "FilingsClient_by_type env self form_type cycle offset =
     fetch env self ''/%s/filings/types/%s'' [cycle, form_type]
       [''offset'' \<mapsto> Data offset, ''parse'' \<mapsto> Callable all_results]"

definition FilingsClient_amendments :: "env \<Rightarrow> 'a client_scheme \<Rightarrow> atom \<Rightarrow> pyval \<Rightarrow> run" where
  "FilingsClient_amendments env self cycle offset =
     fetch env self ''/%s/filings/amendments'' [cycle]
       [''offset'' \<mapsto> Data offset, ''parse'' \<mapsto> Callable all_results]"

subsection \<open>\<^verbatim>\<open>CandidatesClient\<close>\<close>

definition CandidatesClient_latest :: "env \<Rightarrow> 'a client_scheme \<Rightarrow> atom \<Rightarrow> pyval \<Rightarrow> run" where
  "CandidatesClient_latest env self cycle offset =
     fetch env self ''/%s/candidates/new'' [cycle]
       [''offset'' \<mapsto> Data offset, ''parse'' \<mapsto> Callable all_results]"

definition CandidatesClient_get :: "env \<Rightarrow> 'a client_scheme \<Rightarrow> atom \<Rightarrow> atom \<Rightarrow> pyval \<Rightarrow> run" where
  "CandidatesClient_get env self cand_id cycle offset =
     fetch env self ''/%s/candidates/%s'' [cycle, cand_id] [''offset'' \<mapsto> Data offset]"

definition CandidatesClient_filter :: "env \<Rightarrow> 'a client_scheme \<Rightarrow> pyval \<Rightarrow> atom \<Rightarrow> pyval \<Rightarrow> run" where
  "CandidatesClient_filter env self query cycle offset =
     fetch env self ''/%s/candidates/search'' [cycle]
       [''query'' \<mapsto> Data query, ''offset'' \<mapsto> Data offset, ''parse'' \<mapsto> Callable all_results]"

definition CandidatesClient_leaders :: "env \<Rightarrow> 'a client_scheme \<Rightarrow> atom \<Rightarrow> atom \<Rightarrow> pyval \<Rightarrow> run" where
  "CandidatesClient_leaders env self category cycle offset =
     fetch env self ''/%s/candidates/leaders/%s'' [cycle, category]
       [''offset'' \<mapsto> Data offset, ''parse'' \<mapsto> Callable all_results]"

definition CandidatesClient_seats :: "env \<Rightarrow> 'a client_scheme \<Rightarrow> atom \<Rightarrow> atom \<Rightarrow> atom \<Rightarrow> atom \<Rightarrow> pyval \<Rightarrow> run" where
  "CandidatesClient_seats env self state chamber district cycle offset =
     (if truthy_atom district then
        fetch env self ''/%s/seats/%s/%s/%s'' [cycle, state, chamber, district]
          [''offset'' \<mapsto> Data offset, ''parse'' \<mapsto> Callable all_results]
      else if truthy_atom chamber then
        fetch env self ''/%s/seats/%s/%s'' [cycle, state, chamber]
          [''offset'' \<mapsto> Data offset, ''parse'' \<mapsto> Callable all_results]
      else
        fetch env self ''/%s/seats/%s'' [cycle, state]
          [''offset'' \<mapsto> Data offset, ''parse'' \<mapsto> Callable all_results])"

subsection \<open>\<^verbatim>\<open>CommitteesClient\<close>\<close>

definition CommitteesClient_latest :: "env \<Rightarrow> 'a client_scheme \<Rightarrow> atom \<Rightarrow> pyval \<Rightarrow> run" where
  "CommitteesClient_latest env self cycle offset =
     fetch env self ''/%s/committees/new'' [cycle]
       [''offset'' \<mapsto> Data offset, ''parse'' \<mapsto> Callable all_results]"

definition CommitteesClient_get :: "env \<Rightarrow> 'a client_scheme \<Rightarrow> atom \<Rightarrow> atom \<Rightarrow> pyval \<Rightarrow> run" where
  "CommitteesClient_get env self cmte_id cycle offset =
     fetch env self ''/%s/committees/%s'' [cycle, cmte_id] [''offset'' \<mapsto> Data offset]"

definition CommitteesClient_filter :: "env \<Rightarrow> 'a client_scheme \<Rightarrow> pyval \<Rightarrow> atom \<Rightarrow> pyval \<Rightarrow> run" where
  "CommitteesClient_filter env self query cycle offset =
     fetch env self ''/%s/committees/search'' [cycle]
       [''query'' \<mapsto> Data query, ''offset'' \<mapsto> Data offset, ''parse'' \<mapsto> Callable all_results]"

definition CommitteesClient_filings :: "env \<Rightarrow> 'a client_scheme \<Rightarrow> atom \<Rightarrow> atom \<Rightarrow> pyval \<Rightarrow> run" where
  "CommitteesClient_filings env self cmte_id cycle offset =
     fetch env self ''/%s/committees/%s/filings'' [cycle, cmte_id]
       [''offset'' \<mapsto> Data offset, ''parse'' \<mapsto> Callable all_results]"

definition CommitteesClient_contributions :: "env \<Rightarrow> 'a client_scheme \<Rightarrow> atom \<Rightarrow> atom \<Rightarrow> pyval \<Rightarrow> run" where
  "CommitteesClient_contributions env self cmte_id cycle offset =
     fetch env self ''/%s/committees/%s/contributions'' [cycle, cmte_id]
       [''offset'' \<mapsto> Data offset, ''parse'' \<mapsto> Callable all_results]"

definition CommitteesClient_contributions_to_candidate ::
    "env \<Rightarrow> 'a client_scheme \<Rightarrow> atom \<Rightarrow> atom \<Rightarrow> atom \<Rightarrow> pyval \<Rightarrow> run" where
  "CommitteesClient_contributions_to_candidate env self cmte_id candidate_id cycle offset =
     fetch env self ''/%s/committees/%s/contributions/candidates/%s''
       [cycle, cmte_id, candidate_id]
       [''offset'' \<mapsto> Data offset, ''parse'' \<mapsto> Callable all_results]"

definition CommitteesClient_leadership :: "env \<Rightarrow> 'a client_scheme \<Rightarrow> atom \<Rightarrow> pyval \<Rightarrow> run" where
  "CommitteesClient_leadership env self cycle offset =
     fetch env self ''/%s/committees/leadership'' [cycle]
       [''offset'' \<mapsto> Data offset, ''parse'' \<mapsto> Callable all_results]"

subsection \<open>\<^verbatim>\<open>NytCampfin\<close>\<close>

text \<open>
  The public client is itself a \<^verbatim>\<open>Client\<close> (so \<open>fetch\<close> applies to it) and holds one
  client per topic, all three built with its own key (lines 206 to 210).
\<close>

record NytCampfin = client +
  filings :: client
  committees :: client
  candidates :: client

definition NytCampfin_init :: "pyval \<Rightarrow> NytCampfin" where
  "NytCampfin_init key =
     \<lparr>apikey = key,
      filings = \<lparr>apikey = key\<rparr>,
      committees = \<lparr>apikey = key\<rparr>,
      candidates = \<lparr>apikey = key\<rparr>\<rparr>"

section \<open>Observing a call\<close>

text \<open>The response that a call received to the request it sent, if it sent one.\<close>

definition received :: "env \<Rightarrow> run \<Rightarrow> response option" where
  "received env r =
     (case fst r of
        [] \<Rightarrow> None
      | req # reqs \<Rightarrow>
          (case requests_get env (url req) (params req) of
             Inl e \<Rightarrow> None
           | Inr resp \<Rightarrow> Some resp))"

text \<open>
  A test double in the manner of a mocked transport: every request is answered with the
  same status and body, \<^verbatim>\<open>DEBUG\<close> is off, and a conversion other than \<^verbatim>\<open>%s\<close> is
  rejected.
\<close>

definition mocked :: "int \<Rightarrow> pyval \<Rightarrow> env" where
  "mocked status body =
     \<lparr>requests_get = (\<lambda>u ps. Inr \<lparr>status_code = status, json = body\<rparr>),
      DEBUG = False,
      percent_other = (\<lambda>fmt as. Inl (Exn ValueError None))\<rparr>"

text \<open>A call of one of the seventeen endpoint methods, with the values of its parameters.\<close>

datatype endpoint_call =
    Filings_today atom pyval
  | Filings_date atom atom atom atom pyval
  | Filings_form_types atom pyval
  | Filings_by_type atom atom pyval
  | Filings_amendments atom pyval
  | Candidates_latest atom pyval
  | Candidates_get atom atom pyval
  | Candidates_filter pyval atom pyval
  | Candidates_leaders atom atom pyval
  | Candidates_seats atom atom atom atom pyval
  | Committees_latest atom pyval
  | Committees_get atom atom pyval
  | Committees_filter pyval atom pyval
  | Committees_filings atom atom pyval
  | Committees_contributions atom atom pyval
  | Committees_contributions_to_candidate atom atom atom pyval
  | Committees_leadership atom pyval

fun invoke :: "env \<Rightarrow> 'a client_scheme \<Rightarrow> endpoint_call \<Rightarrow> run" where
  "invoke env self (Filings_today cycle offset) = FilingsClient_today env self cycle offset"
| "invoke env self (Filings_date year month day cycle offset) =
     FilingsClient_date env self year month day cycle offset"
| "invoke env self (Filings_form_types cycle offset) =
     FilingsClient_form_types env self cycle offset"
| "invoke env self (Filings_by_type form_type cycle offset) =
     FilingsClient_by_type env self form_type cycle offset"
| "invoke env self (Filings_amendments cycle offset) =
     FilingsClient_amendments env self cycle offset"
| "invoke env self (Candidates_latest cycle offset) =
     CandidatesClient_latest env self cycle offset"
| "invoke env self (Candidates_get cand_id cycle offset) =
     CandidatesClient_get env self cand_id cycle offset"
| "invoke env self (Candidates_filter query cycle offset) =
     CandidatesClient_filter env self query cycle offset"
| "invoke env self (Candidates_leaders category cycle offset) =
     CandidatesClient_leaders env self category cycle offset"
| "invoke env self (Candidates_seats state chamber district cycle offset) =
     CandidatesClient_seats env self state chamber district cycle offset"
| "invoke env self (Committees_latest cycle offset) =
     CommitteesClient_latest env self cycle offset"
| "invoke env self (Committees_get cmte_id cycle offset) =
     CommitteesClient_get env self cmte_id cycle offset"
| "invoke env self (Committees_filter query cycle offset) =
     CommitteesClient_filter env self query cycle offset"
| "invoke env self (Committees_filings cmte_id cycle offset) =
     CommitteesClient_filings env self cmte_id cycle offset"
| "invoke env self (Committees_contributions cmte_id cycle offset) =
     CommitteesClient_contributions env self cmte_id cycle offset"
| "invoke env self (Committees_contributions_to_candidate cmte_id candidate_id cycle offset) =
     CommitteesClient_contributions_to_candidate env self cmte_id candidate_id cycle offset"
| "invoke env self (Committees_leadership cycle offset) =
     CommitteesClient_leadership env self cycle offset"

text \<open>
  The path of each endpoint as the specification tabulates it (section 4.2), with the
  values written in place of the placeholders: \<^verbatim>\<open>/{cycle}/filings/{y}/{m}/{d}\<close> and so
  on. For \<^verbatim>\<open>seats\<close> the optional segments are those of the variant the method selects.
\<close>

fun spec_path :: "endpoint_call \<Rightarrow> string" where
  "spec_path (Filings_today cycle offset) = ''/'' @ py_str cycle @ ''/filings''"
| "spec_path (Filings_date year month day cycle offset) =
     ''/'' @ py_str cycle @ ''/filings/'' @ py_str year @ ''/'' @ py_str month @ ''/'' @ py_str day"
| "spec_path (Filings_form_types cycle offset) = ''/'' @ py_str cycle @ ''/filings/types''"
| "spec_path (Filings_by_type form_type cycle offset) =
     ''/'' @ py_str cycle @ ''/filings/types/'' @ py_str form_type"
| "spec_path (Filings_amendments cycle offset) = ''/'' @ py_str cycle @ ''/filings/amendments''"
| "spec_path (Candidates_latest cycle offset) = ''/'' @ py_str cycle @ ''/candidates/new''"
| "spec_path (Candidates_get cand_id cycle offset) =
     ''/'' @ py_str cycle @ ''/candidates/'' @ py_str cand_id"
| "spec_path (Candidates_filter query cycle offset) = ''/'' @ py_str cycle @ ''/candidates/search''"
| "spec_path (Candidates_leaders category cycle offset) =
     ''/'' @ py_str cycle @ ''/candidates/leaders/'' @ py_str category"
| "spec_path (Candidates_seats state chamber district cycle offset) =
     ''/'' @ py_str cycle @ ''/seats/'' @ py_str state @
       (if truthy_atom district then ''/'' @ py_str chamber @ ''/'' @ py_str district
        else if truthy_atom chamber then ''/'' @ py_str chamber
        else [])"
| "spec_path (Committees_latest cycle offset) = ''/'' @ py_str cycle @ ''/committees/new''"
| "spec_path (Committees_get cmte_id cycle offset) =
     ''/'' @ py_str cycle @ ''/committees/'' @ py_str cmte_id"
| "spec_path (Committees_filter query cycle offset) = ''/'' @ py_str cycle @ ''/committees/search''"
| "spec_path (Committees_filings cmte_id cycle offset) =
     ''/'' @ py_str cycle @ ''/committees/'' @ py_str cmte_id @ ''/filings''"
| "spec_path (Committees_contributions cmte_id cycle offset) =
     ''/'' @ py_str cycle @ ''/committees/'' @ py_str cmte_id @ ''/contributions''"
| "spec_path (Committees_contributions_to_candidate cmte_id candidate_id cycle offset) =
     ''/'' @ py_str cycle @ ''/committees/'' @ py_str cmte_id @
       ''/contributions/candidates/'' @ py_str candidate_id"
| "spec_path (Committees_leadership cycle offset) = ''/'' @ py_str cycle @ ''/committees/leadership''"

section \<open>Auxiliary facts\<close>

lemma BASE_URI_no_percent: "CHR ''%'' \<notin> set BASE_URI"
  by (simp add: BASE_URI_def)

text \<open>Text without a percent sign in front of a format string is copied through.\<close>

lemma py_format_literal_prefix:
  "CHR ''%'' \<notin> set p \<Longrightarrow>
   py_format other (p @ fmt) as =
     (case py_format other fmt as of Inl e \<Rightarrow> Inl e | Inr r \<Rightarrow> Inr (p @ r))"
  by (induction p) (auto split: sum.splits)

text \<open>A template that begins with a slash is never taken for a full URL.\<close>

lemma template_not_prefixed: "\<not> startswith (lower (CHR ''/'' # t)) BASE_URI"
  by (simp add: startswith_def lower_def lower_char_def BASE_URI_def)

lemma popped_parse_offset [simp]:
  "popped_parse (kwargs(''offset'' \<mapsto> v)) = popped_parse kwargs"
  by (simp add: popped_parse_def)

lemma fetch_no_offset:
  "kwargs ''offset'' = None \<Longrightarrow>
   fetch env self path args kwargs = ([], Inl (Exn KeyError (Some ''offset'')))"
  by (simp add: fetch_def)

text \<open>No retries: a call sends one request at most.\<close>

lemma fetch_at_most_one_request: "length (fst (fetch env self path args kwargs)) \<le> 1"
  by (simp add: fetch_def Let_def split: option.split sum.split)

text \<open>Once a response has come back, the outcome of the call is what \<open>respond\<close> makes of it.\<close>

lemma fetch_received:
  assumes "received env (fetch env self path args kwargs) = Some resp"
  shows "snd (fetch env self path args kwargs) =
           respond env (popped_parse kwargs) (url (hd (fst (fetch env self path args kwargs)))) resp"
proof (cases "kwargs ''offset''")
  case None
  with assms show ?thesis by (simp add: fetch_def received_def)
next
  case (Some off)
  let ?formatted = "if \<not> startswith (lower path) BASE_URI
                 then py_format (percent_other env) (BASE_URI @ (path @ ''.json'')) args
                 else Inr (path @ ''?'')"
  show ?thesis
  proof (cases ?formatted)
    case (Inl e)
    with assms Some show ?thesis by (simp add: fetch_def received_def Let_def)
  next
    case (Inr u)
    with assms Some show ?thesis
      by (cases "truthy_kw off")
         (auto simp: fetch_def received_def Let_def split: sum.splits)
  qed
qed

lemma respond_failure_raises:
  "status_code resp \<noteq> 200 \<Longrightarrow> status_code resp \<noteq> 304 \<Longrightarrow> \<exists>e. respond env p u resp = Inl e"
  by (simp add: respond_def split: sum.splits)

lemma fetch_returns_only_on_response:
  assumes "snd (fetch env self path args kwargs) = Inr v"
  shows "\<exists>resp. received env (fetch env self path args kwargs) = Some resp
           \<and> (status_code resp = 200 \<or> status_code resp = 304)"
proof (cases "kwargs ''offset''")
  case None
  with assms show ?thesis by (simp add: fetch_def)
next
  case (Some off)
  let ?formatted = "if \<not> startswith (lower path) BASE_URI
                 then py_format (percent_other env) (BASE_URI @ (path @ ''.json'')) args
                 else Inr (path @ ''?'')"
  show ?thesis
  proof (cases ?formatted)
    case (Inl e)
    with assms Some show ?thesis by (simp add: fetch_def Let_def)
  next
    case (Inr u)
    have raise: "respond env p u r \<noteq> Inr v"
      if "status_code r \<noteq> 200" and "status_code r \<noteq> 304" for p r
      using respond_failure_raises[OF that, of env p u] by auto
    from assms Some Inr show ?thesis
      by (cases "truthy_kw off")
         (auto simp: fetch_def received_def Let_def split: sum.splits dest: raise)
  qed
qed

lemma as_strings_map_PStr: "as_strings (map PStr es) = Some es"
  by (induction es) auto

lemma py_join_strings: "py_join sep (map PStr es) = Inr (intersperse sep es)"
  by (simp add: py_join_def as_strings_map_PStr)

lemma respond_failure_errors:
  assumes "status_code resp \<noteq> 200" and "status_code resp \<noteq> 304"
    and "json resp = PDict kvs" and "map_of kvs ''errors'' = Some (PList (map PStr es))"
  shows "respond env p u resp =
           Inl (Exn (if status_code resp = 404 then NytNotFoundError else NytCampfinError)
                  (Some (intersperse ''; '' es)))"
  using assms by (simp add: respond_def py_join_strings)

text \<open>The request that goes out for a template beginning with a slash.\<close>

lemma fst_fetch_template:
  assumes "kwargs ''offset'' = Some off"
  shows "fst (fetch env self (CHR ''/'' # t) args kwargs) =
     (case py_format (percent_other env) (CHR ''/'' # t @ ''.json'') args of
        Inl e \<Rightarrow> []
      | Inr s \<Rightarrow>
          [\<lparr>url = BASE_URI @ s,
            params = (if \<not> truthy_kw off then kwargs(''offset'' \<mapsto> Data (PInt 0)) else kwargs)
                       (''parse'' := None, ''api-key'' \<mapsto> Data (apikey self))\<rparr>])"
  using assms template_not_prefixed[of t]
  by (simp add: fetch_def Let_def py_format_literal_prefix[OF BASE_URI_no_percent]
           split: sum.splits)

lemma received_mocked:
  "fst r \<noteq> [] \<Longrightarrow> received (mocked st body) r = Some \<lparr>status_code = st, json = body\<rparr>"
  by (cases "fst r") (simp_all add: received_def mocked_def)

text \<open>
  When \<^verbatim>\<open>offset\<close> is among the keyword arguments, the request carries it unchanged if
  it is truthy and carries the integer 0 otherwise.
\<close>

lemma fetch_sends_offset:
  assumes "kwargs ''offset'' = Some off" and "fst (fetch env self path args kwargs) = req # reqs"
  shows "params req ''offset'' = Some (if truthy_kw off then off else Data (PInt 0))"
  using assms by (auto simp: fetch_def Let_def split: sum.splits if_splits)

text \<open>What \<open>respond\<close> does with a response of status 200 or 304.\<close>

lemma respond_success:
  assumes "status_code resp = 200 \<or> status_code resp = 304"
  shows "respond env p u resp =
     (case p of
        Callable f \<Rightarrow>
          (case f (json resp) of
             Inl e \<Rightarrow> Inl e
           | Inr result \<Rightarrow> if DEBUG env then setitem_key result ''_url'' (PStr u) else Inr result)
      | Data v \<Rightarrow> Inr (json resp))"
  using assms by (auto simp: respond_def)

text \<open>The default extraction on a body whose \<^verbatim>\<open>results\<close> is a list.\<close>

lemma first_result_nonempty:
  "map_of kvs ''results'' = Some (PList (x # xs)) \<Longrightarrow> first_result (PDict kvs) = Inr x"
  by (simp add: first_result_def index_list_def)

lemma first_result_empty:
  "map_of kvs ''results'' = Some (PList []) \<Longrightarrow> first_result (PDict kvs) = Inl (Exn IndexError None)"
  by (simp add: first_result_def index_list_def)

text \<open>The value popped for \<^verbatim>\<open>parse\<close>.\<close>

lemma popped_parse_absent: "kwargs ''parse'' = None \<Longrightarrow> popped_parse kwargs = Callable first_result"
  by (simp add: popped_parse_def)

lemma popped_parse_present: "kwargs ''parse'' = Some p \<Longrightarrow> popped_parse kwargs = p"
  by (simp add: popped_parse_def)

text \<open>The default cycle as it appears in a path.\<close>

lemma CURRENT_CYCLE_str: "py_str CURRENT_CYCLE = ''2012''"
  by (simp add: CURRENT_CYCLE_def digits.simps digit_char_def)

text \<open>The two library errors in the class hierarchy.\<close>

lemma not_found_is_campfin: "issubclass NytNotFoundError NytCampfinError"
  by (simp add: issubclass.simps)

lemma index_error_not_campfin: "\<not> catches NytCampfinError (Exn IndexError None)"
  by (simp add: catches_def issubclass.simps)

section \<open>The claims\<close>

text \<open>
  C1. The claim: every call into \<^verbatim>\<open>fetch\<close>, direct or through an endpoint method, sends
  \<^verbatim>\<open>offset\<close> as 0 when it is falsy or left out, and unchanged when truthy. A direct call
  that leaves \<^verbatim>\<open>offset\<close> out does not get that far: \<^verbatim>\<open>kwargs['offset']\<close> on line 43
  raises \<^verbatim>\<open>KeyError\<close> and nothing is sent. The call below follows a URL taken from a
  response, the use the docstring of \<^verbatim>\<open>NytCampfin\<close> describes.
\<close>

theorem fetch_omitted_offset_KeyError:
  "fetch (mocked 200 (PDict [(''results'', PList [])])) (NytCampfin_init (PStr ''key''))
     (BASE_URI @ ''/2012/candidates/new.json'') [] Map.empty
   = ([], Inl (Exn KeyError (Some ''offset'')))"
  by (simp add: fetch_def)



text \<open>
  C3. Whatever endpoint method is called, with whatever values, exactly one request is
  sent; its URL is the base URI, then the path of the endpoint with the values in the
  places of the placeholders, then \<^verbatim>\<open>.json\<close>; and its query parameters hold the key
  of the client under \<^verbatim>\<open>api-key\<close>.
\<close>

theorem endpoint_url_and_api_key:
  "\<exists>ps. fst (invoke env self c) = [\<lparr>url = BASE_URI @ spec_path c @ ''.json'', params = ps\<rparr>]
        \<and> ps ''api-key'' = Some (Data (apikey self))"
proof (cases c)
  case (Candidates_seats state chamber district cycle offset)
  then show ?thesis
    by (simp add: CandidatesClient_seats_def fst_fetch_template)
qed (simp_all add: fst_fetch_template
      FilingsClient_today_def FilingsClient_date_def FilingsClient_form_types_def
      FilingsClient_by_type_def FilingsClient_amendments_def
      CandidatesClient_latest_def CandidatesClient_get_def CandidatesClient_filter_def
      CandidatesClient_leaders_def
      CommitteesClient_latest_def CommitteesClient_get_def CommitteesClient_filter_def
      CommitteesClient_filings_def CommitteesClient_contributions_def
      CommitteesClient_contributions_to_candidate_def CommitteesClient_leadership_def)

text \<open>
  C4. A success response with body \<^verbatim>\<open>{"results": [{"id": "C001"}]}\<close> and \<^verbatim>\<open>DEBUG\<close>
  off: \<^verbatim>\<open>candidates.get("C001")\<close>, for any cycle and offset, returns the first element
  of \<^verbatim>\<open>results\<close>, \<^verbatim>\<open>{"id": "C001"}\<close>, through the default \<^verbatim>\<open>parse\<close> of \<^verbatim>\<open>fetch\<close>.
\<close>

theorem candidates_get_first_of_results:
  assumes "received env (CandidatesClient_get env self (AStr ''C001'') cycle offset) = Some resp"
    and "status_code resp = 200 \<or> status_code resp = 304"
    and "json resp = PDict [(''results'', PList [PDict [(''id'', PStr ''C001'')]])]"
    and "\<not> DEBUG env"
  shows "snd (CandidatesClient_get env self (AStr ''C001'') cycle offset)
           = Inr (PDict [(''id'', PStr ''C001'')])"
proof -
  let ?kw = "[''offset'' \<mapsto> Data offset] :: kwargs"
  have r: "received env (fetch env self ''/%s/candidates/%s'' [cycle, AStr ''C001''] ?kw) = Some resp"
    using assms(1) by (simp add: CandidatesClient_get_def)
  have f: "first_result (json resp) = Inr (PDict [(''id'', PStr ''C001'')])"
    using assms(3) by (simp add: first_result_nonempty)
  show ?thesis
    unfolding CandidatesClient_get_def
    using fetch_received[OF r] assms(4) f
    by (simp add: popped_parse_def respond_success[OF assms(2)])
qed

theorem candidates_get_first_of_results_witness:
  "received (mocked 200 (PDict [(''results'', PList [PDict [(''id'', PStr ''C001'')]])]))
     (CandidatesClient_get (mocked 200 (PDict [(''results'', PList [PDict [(''id'', PStr ''C001'')]])]))
        (candidates (NytCampfin_init (PStr ''key''))) (AStr ''C001'') CURRENT_CYCLE (PInt 0))
     = Some \<lparr>status_code = 200, json = PDict [(''results'', PList [PDict [(''id'', PStr ''C001'')]])]\<rparr>
   \<and> \<not> DEBUG (mocked 200 (PDict [(''results'', PList [PDict [(''id'', PStr ''C001'')]])]))
   \<and> snd (CandidatesClient_get (mocked 200 (PDict [(''results'', PList [PDict [(''id'', PStr ''C001'')]])]))
        (candidates (NytCampfin_init (PStr ''key''))) (AStr ''C001'') CURRENT_CYCLE (PInt 0))
     = Inr (PDict [(''id'', PStr ''C001'')])"
proof -
  let ?body = "PDict [(''results'', PList [PDict [(''id'', PStr ''C001'')]])]"
  let ?resp = "\<lparr>status_code = 200, json = ?body\<rparr>"
  let ?run = "CandidatesClient_get (mocked 200 ?body) (candidates (NytCampfin_init (PStr ''key'')))
                (AStr ''C001'') CURRENT_CYCLE (PInt 0)"
  have r: "received (mocked 200 ?body) ?run = Some ?resp"
    by (rule received_mocked) (simp add: CandidatesClient_get_def fst_fetch_template)
  have s: "status_code ?resp = 200 \<or> status_code ?resp = 304" by simp
  have j: "json ?resp = ?body" by simp
  have d: "\<not> DEBUG (mocked 200 ?body)" by (simp add: mocked_def)
  from candidates_get_first_of_results[OF r s j d] r d show ?thesis by simp
qed

text \<open>
  C5 as it is stated selects the four-segment template whenever \<^verbatim>\<open>district\<close> is
  supplied. The method tests truth values (\<^verbatim>\<open>if district:\<close>, \<^verbatim>\<open>elif chamber:\<close>), so a
  district that is supplied as 0 is treated as absent: for the at-large seat
  \<^verbatim>\<open>seats("AK", chamber="H", district=0)\<close> the URL requested is that of the chamber
  template, without the district.
\<close>

theorem seats_falsy_district_counterexample:
  "map url (fst (CandidatesClient_seats (mocked 200 (PDict [(''results'', PList [])]))
      (candidates (NytCampfin_init (PStr ''key'')))
      (AStr ''AK'') (AStr ''H'') (AInt 0) CURRENT_CYCLE (PInt 0)))
     = [BASE_URI @ ''/2012/seats/AK/H.json'']
   \<and> BASE_URI @ ''/2012/seats/AK/H.json'' \<noteq> BASE_URI @ ''/2012/seats/AK/H/0.json''"
  by (simp add: CandidatesClient_seats_def fst_fetch_template CURRENT_CYCLE_str mocked_def)

text \<open>
  C5, amended. \<^verbatim>\<open>seats\<close> sends one request, whose path is
  \<^verbatim>\<open>/{cycle}/seats/{state}/{chamber}/{district}\<close> when \<^verbatim>\<open>district\<close> is truthy, else
  \<^verbatim>\<open>/{cycle}/seats/{state}/{chamber}\<close> when \<^verbatim>\<open>chamber\<close> is truthy, else
  \<^verbatim>\<open>/{cycle}/seats/{state}\<close>; and \<^verbatim>\<open>seats("NY")\<close>, \<^verbatim>\<open>seats("NY", chamber="H")\<close> and
  \<^verbatim>\<open>seats("NY", chamber="H", district="3")\<close> request three different URLs, each with
  exactly the segments it was given.
\<close>

theorem seats_template_by_truthiness:
  "map url (fst (CandidatesClient_seats env self state chamber district cycle offset)) =
     [BASE_URI @ ''/'' @ py_str cycle @ ''/seats/'' @ py_str state @
        (if truthy_atom district then ''/'' @ py_str chamber @ ''/'' @ py_str district
         else if truthy_atom chamber then ''/'' @ py_str chamber
         else []) @ ''.json'']
   \<and> map url (fst (CandidatesClient_seats env self (AStr ''NY'') ANone ANone CURRENT_CYCLE (PInt 0)))
       = [BASE_URI @ ''/2012/seats/NY.json'']
   \<and> map url (fst (CandidatesClient_seats env self (AStr ''NY'') (AStr ''H'') ANone CURRENT_CYCLE (PInt 0)))
       = [BASE_URI @ ''/2012/seats/NY/H.json'']
   \<and> map url (fst (CandidatesClient_seats env self (AStr ''NY'') (AStr ''H'') (AStr ''3'') CURRENT_CYCLE (PInt 0)))
       = [BASE_URI @ ''/2012/seats/NY/H/3.json'']
   \<and> distinct [BASE_URI @ ''/2012/seats/NY.json'', BASE_URI @ ''/2012/seats/NY/H.json'',
                BASE_URI @ ''/2012/seats/NY/H/3.json'']"
  by (simp add: CandidatesClient_seats_def fst_fetch_template CURRENT_CYCLE_str)

text \<open>
  C6. \<^verbatim>\<open>fetch\<close> returns a value only when a response came back with status 200 or 304;
  a response with any other status makes the call raise, so that no part of a body is
  handed back on failure; and there is no retry, a call sends at most one request.
\<close>

theorem fetch_fails_entirely:
  "(snd (fetch env self path args kwargs) = Inr v \<longrightarrow>
      (\<exists>resp. received env (fetch env self path args kwargs) = Some resp
             \<and> (status_code resp = 200 \<or> status_code resp = 304)))
   \<and> (received env (fetch env self path args kwargs) = Some resp \<longrightarrow>
        status_code resp \<noteq> 200 \<longrightarrow> status_code resp \<noteq> 304 \<longrightarrow>
        (\<exists>e. snd (fetch env self path args kwargs) = Inl e))
   \<and> length (fst (fetch env self path args kwargs)) \<le> 1"
proof (intro conjI impI)
  assume "snd (fetch env self path args kwargs) = Inr v"
  then show "\<exists>resp. received env (fetch env self path args kwargs) = Some resp
             \<and> (status_code resp = 200 \<or> status_code resp = 304)"
    by (rule fetch_returns_only_on_response)
next
  assume r: "received env (fetch env self path args kwargs) = Some resp"
    and s: "status_code resp \<noteq> 200" "status_code resp \<noteq> 304"
  from respond_failure_raises[OF s] fetch_received[OF r]
  show "\<exists>e. snd (fetch env self path args kwargs) = Inl e" by simp
next
  show "length (fst (fetch env self path args kwargs)) \<le> 1"
    by (rule fetch_at_most_one_request)
qed

theorem fetch_fails_entirely_witness:
  "snd (fetch (mocked 200 (PDict [(''results'', PList [PStr ''a'', PStr ''b''])]))
          \<lparr>apikey = PStr ''key''\<rparr> ''/%s/filings'' [CURRENT_CYCLE]
          [''offset'' \<mapsto> Data (PInt 0), ''parse'' \<mapsto> Callable all_results])
     = Inr (PList [PStr ''a'', PStr ''b''])
   \<and> (\<exists>resp. received (mocked 200 (PDict [(''results'', PList [PStr ''a'', PStr ''b''])]))
               (fetch (mocked 200 (PDict [(''results'', PList [PStr ''a'', PStr ''b''])]))
                  \<lparr>apikey = PStr ''key''\<rparr> ''/%s/filings'' [CURRENT_CYCLE]
                  [''offset'' \<mapsto> Data (PInt 0), ''parse'' \<mapsto> Callable all_results]) = Some resp
             \<and> (status_code resp = 200 \<or> status_code resp = 304))
   \<and> received (mocked 503 (PDict [(''results'', PList [PStr ''a'', PStr ''b''])]))
        (fetch (mocked 503 (PDict [(''results'', PList [PStr ''a'', PStr ''b''])]))
           \<lparr>apikey = PStr ''key''\<rparr> ''/%s/filings'' [CURRENT_CYCLE]
           [''offset'' \<mapsto> Data (PInt 0), ''parse'' \<mapsto> Callable all_results])
       = Some \<lparr>status_code = 503, json = PDict [(''results'', PList [PStr ''a'', PStr ''b''])]\<rparr>
   \<and> (\<exists>e. snd (fetch (mocked 503 (PDict [(''results'', PList [PStr ''a'', PStr ''b''])]))
           \<lparr>apikey = PStr ''key''\<rparr> ''/%s/filings'' [CURRENT_CYCLE]
           [''offset'' \<mapsto> Data (PInt 0), ''parse'' \<mapsto> Callable all_results]) = Inl e)"
proof -
  let ?body = "PDict [(''results'', PList [PStr ''a'', PStr ''b''])]"
  let ?kw = "[''offset'' \<mapsto> Data (PInt 0), ''parse'' \<mapsto> Callable all_results] :: kwargs"
  let ?ok = "fetch (mocked 200 ?body) \<lparr>apikey = PStr ''key''\<rparr> ''/%s/filings'' [CURRENT_CYCLE] ?kw"
  let ?ko = "fetch (mocked 503 ?body) \<lparr>apikey = PStr ''key''\<rparr> ''/%s/filings'' [CURRENT_CYCLE] ?kw"
  have r: "received (mocked 200 ?body) ?ok = Some \<lparr>status_code = 200, json = ?body\<rparr>"
    by (rule received_mocked) (simp add: fst_fetch_template)
  have v: "snd ?ok = Inr (PList [PStr ''a'', PStr ''b''])"
    using fetch_received[OF r] by (simp add: respond_def popped_parse_def all_results_def mocked_def)
  have r': "received (mocked 503 ?body) ?ko = Some \<lparr>status_code = 503, json = ?body\<rparr>"
    by (rule received_mocked) (simp add: fst_fetch_template)
  note ok = fetch_fails_entirely[of "mocked 200 ?body" "\<lparr>apikey = PStr ''key''\<rparr>" "''/%s/filings''"
              "[CURRENT_CYCLE]" ?kw "PList [PStr ''a'', PStr ''b'']"]
  note ko = fetch_fails_entirely[of "mocked 503 ?body" "\<lparr>apikey = PStr ''key''\<rparr>" "''/%s/filings''"
              "[CURRENT_CYCLE]" ?kw _ "\<lparr>status_code = 503, json = ?body\<rparr>"]
  from ok v have a: "\<exists>resp. received (mocked 200 ?body) ?ok = Some resp
             \<and> (status_code resp = 200 \<or> status_code resp = 304)" by blast
  from ko r' have b: "\<exists>e. snd ?ko = Inl e" by simp
  from v a r' b show ?thesis by blast
qed

text \<open>
  C7. On a success response, a \<^verbatim>\<open>parse\<close> keyword that is not callable makes \<^verbatim>\<open>fetch\<close>
  return the decoded body as it is, whatever \<^verbatim>\<open>DEBUG\<close> says; with no \<^verbatim>\<open>parse\<close> keyword
  the default extraction is applied (and its result annotated under \<^verbatim>\<open>DEBUG\<close>), which
  on a body with a non-empty \<^verbatim>\<open>results\<close> list yields its first element.
\<close>

theorem fetch_noncallable_parse_returns_body:
  assumes "received env (fetch env self path args kwargs) = Some resp"
    and "status_code resp = 200 \<or> status_code resp = 304"
  shows "(\<forall>p. kwargs ''parse'' = Some p \<longrightarrow> \<not> callable p \<longrightarrow>
            snd (fetch env self path args kwargs) = Inr (json resp))
       \<and> (kwargs ''parse'' = None \<longrightarrow>
            snd (fetch env self path args kwargs) =
              (case first_result (json resp) of
                 Inl e \<Rightarrow> Inl e
               | Inr result \<Rightarrow>
                   if DEBUG env
                   then setitem_key result ''_url''
                          (PStr (url (hd (fst (fetch env self path args kwargs)))))
                   else Inr result))
       \<and> (\<forall>kvs x xs. json resp = PDict kvs \<longrightarrow> map_of kvs ''results'' = Some (PList (x # xs)) \<longrightarrow>
            first_result (json resp) = Inr x)"
proof (intro conjI allI impI)
  fix p assume p: "kwargs ''parse'' = Some p" and "\<not> callable p"
  then obtain v where "p = Data v" by (cases p) auto
  with p have "popped_parse kwargs = Data v" by (simp add: popped_parse_present)
  with fetch_received[OF assms(1)] show "snd (fetch env self path args kwargs) = Inr (json resp)"
    by (simp add: respond_success[OF assms(2)])
next
  assume "kwargs ''parse'' = None"
  then have "popped_parse kwargs = Callable first_result" by (rule popped_parse_absent)
  with fetch_received[OF assms(1)]
  show "snd (fetch env self path args kwargs) =
              (case first_result (json resp) of
                 Inl e \<Rightarrow> Inl e
               | Inr result \<Rightarrow>
                   if DEBUG env
                   then setitem_key result ''_url''
                          (PStr (url (hd (fst (fetch env self path args kwargs)))))
                   else Inr result)"
    by (simp add: respond_success[OF assms(2)])
next
  fix kvs x xs
  assume "json resp = PDict kvs" and "map_of kvs ''results'' = Some (PList (x # xs))"
  then show "first_result (json resp) = Inr x" by (simp add: first_result_nonempty)
qed

theorem fetch_noncallable_parse_returns_body_witness:
  "received (mocked 304 (PDict [(''results'', PList [PInt 7, PInt 8]), (''status'', PStr ''OK'')]))
     (fetch (mocked 304 (PDict [(''results'', PList [PInt 7, PInt 8]), (''status'', PStr ''OK'')]))
        \<lparr>apikey = PStr ''key''\<rparr> ''/%s/candidates/%s'' [CURRENT_CYCLE, AStr ''C001'']
        [''offset'' \<mapsto> Data (PInt 0), ''parse'' \<mapsto> Data PNone])
     = Some \<lparr>status_code = 304,
             json = PDict [(''results'', PList [PInt 7, PInt 8]), (''status'', PStr ''OK'')]\<rparr>
   \<and> snd (fetch (mocked 304 (PDict [(''results'', PList [PInt 7, PInt 8]), (''status'', PStr ''OK'')]))
        \<lparr>apikey = PStr ''key''\<rparr> ''/%s/candidates/%s'' [CURRENT_CYCLE, AStr ''C001'']
        [''offset'' \<mapsto> Data (PInt 0), ''parse'' \<mapsto> Data PNone])
     = Inr (PDict [(''results'', PList [PInt 7, PInt 8]), (''status'', PStr ''OK'')])
   \<and> snd (fetch (mocked 304 (PDict [(''results'', PList [PInt 7, PInt 8]), (''status'', PStr ''OK'')]))
        \<lparr>apikey = PStr ''key''\<rparr> ''/%s/candidates/%s'' [CURRENT_CYCLE, AStr ''C001'']
        [''offset'' \<mapsto> Data (PInt 0)])
     = Inr (PInt 7)"
proof -
  let ?body = "PDict [(''results'', PList [PInt 7, PInt 8]), (''status'', PStr ''OK'')]"
  let ?resp = "\<lparr>status_code = 304, json = ?body\<rparr>"
  let ?raw = "fetch (mocked 304 ?body) \<lparr>apikey = PStr ''key''\<rparr> ''/%s/candidates/%s''
                [CURRENT_CYCLE, AStr ''C001''] [''offset'' \<mapsto> Data (PInt 0), ''parse'' \<mapsto> Data PNone]"
  let ?dflt = "fetch (mocked 304 ?body) \<lparr>apikey = PStr ''key''\<rparr> ''/%s/candidates/%s''
                [CURRENT_CYCLE, AStr ''C001''] [''offset'' \<mapsto> Data (PInt 0)]"
  have s: "status_code ?resp = 200 \<or> status_code ?resp = 304" by simp
  have r: "received (mocked 304 ?body) ?raw = Some ?resp"
    by (rule received_mocked) (simp add: fst_fetch_template)
  have r': "received (mocked 304 ?body) ?dflt = Some ?resp"
    by (rule received_mocked) (simp add: fst_fetch_template)
  from fetch_noncallable_parse_returns_body[OF r s]
  have a: "snd ?raw = Inr ?body" by simp
  from fetch_noncallable_parse_returns_body[OF r' s]
  have b: "snd ?dflt = Inr (PInt 7)" by (simp add: mocked_def)
  from r a b show ?thesis by simp
qed

text \<open>
  C8 as it is stated covers every error raised on a failing response. A failing
  response whose body has no \<^verbatim>\<open>errors\<close> makes \<^verbatim>\<open>content['errors']\<close> on line 57 raise
  \<^verbatim>\<open>KeyError\<close>, which a handler for \<^verbatim>\<open>NytCampfinError\<close> does not catch: here a 503
  whose body holds \<^verbatim>\<open>results\<close> only.
\<close>

theorem failing_response_without_errors_counterexample:
  "snd (fetch (mocked 503 (PDict [(''results'', PList [])])) \<lparr>apikey = PStr ''key''\<rparr>
          ''/%s/filings'' [CURRENT_CYCLE]
          [''offset'' \<mapsto> Data (PInt 0), ''parse'' \<mapsto> Callable all_results])
     = Inl (Exn KeyError (Some ''errors''))
   \<and> \<not> catches NytCampfinError (Exn KeyError (Some ''errors''))"
proof -
  let ?body = "PDict [(''results'', PList [])]"
  let ?run = "fetch (mocked 503 ?body) \<lparr>apikey = PStr ''key''\<rparr> ''/%s/filings'' [CURRENT_CYCLE]
                [''offset'' \<mapsto> Data (PInt 0), ''parse'' \<mapsto> Callable all_results]"
  have r: "received (mocked 503 ?body) ?run = Some \<lparr>status_code = 503, json = ?body\<rparr>"
    by (rule received_mocked) (simp add: fst_fetch_template)
  have "snd ?run = Inl (Exn KeyError (Some ''errors''))"
    using fetch_received[OF r] by (simp add: respond_def)
  moreover have "\<not> catches NytCampfinError (Exn KeyError (Some ''errors''))"
    by (simp add: catches_def issubclass.simps)
  ultimately show ?thesis by simp
qed

text \<open>
  C8, amended. \<^verbatim>\<open>NytNotFoundError\<close> derives from \<^verbatim>\<open>NytCampfinError\<close>; hence, on a
  failing response whose body carries \<^verbatim>\<open>errors\<close> as a list of strings, the error that
  \<^verbatim>\<open>fetch\<close> raises, the \<^verbatim>\<open>NytNotFoundError\<close> of status 404 included, is caught by a
  handler for \<^verbatim>\<open>NytCampfinError\<close> alone.
\<close>

theorem library_errors_caught_as_NytCampfinError:
  assumes "received env (fetch env self path args kwargs) = Some resp"
    and "status_code resp \<noteq> 200" and "status_code resp \<noteq> 304"
    and "json resp = PDict kvs" and "map_of kvs ''errors'' = Some (PList (map PStr es))"
  shows "issubclass NytNotFoundError NytCampfinError
       \<and> (\<exists>e. snd (fetch env self path args kwargs) = Inl e
              \<and> catches NytCampfinError e
              \<and> exn_class e = (if status_code resp = 404 then NytNotFoundError else NytCampfinError))"
proof -
  let ?u = "url (hd (fst (fetch env self path args kwargs)))"
  let ?e = "Exn (if status_code resp = 404 then NytNotFoundError else NytCampfinError)
              (Some (intersperse ''; '' es))"
  have "snd (fetch env self path args kwargs) = Inl ?e"
    using fetch_received[OF assms(1)]
          respond_failure_errors[OF assms(2-5), of env "popped_parse kwargs" ?u]
    by simp
  moreover have "catches NytCampfinError ?e"
    by (simp add: catches_def issubclass.simps)
  moreover have "exn_class ?e = (if status_code resp = 404 then NytNotFoundError else NytCampfinError)"
    by simp
  ultimately show ?thesis using not_found_is_campfin by blast
qed

theorem library_errors_caught_as_NytCampfinError_witness:
  "received (mocked 404 (PDict [(''errors'', PList [PStr ''not found''])]))
     (fetch (mocked 404 (PDict [(''errors'', PList [PStr ''not found''])]))
        \<lparr>apikey = PStr ''key''\<rparr> ''/%s/committees/%s'' [CURRENT_CYCLE, AStr ''C00000000'']
        [''offset'' \<mapsto> Data (PInt 0)])
     = Some \<lparr>status_code = 404, json = PDict [(''errors'', PList [PStr ''not found''])]\<rparr>
   \<and> (\<exists>e. snd (fetch (mocked 404 (PDict [(''errors'', PList [PStr ''not found''])]))
            \<lparr>apikey = PStr ''key''\<rparr> ''/%s/committees/%s'' [CURRENT_CYCLE, AStr ''C00000000'']
            [''offset'' \<mapsto> Data (PInt 0)]) = Inl e
          \<and> catches NytCampfinError e \<and> exn_class e = NytNotFoundError)"
proof -
  let ?body = "PDict [(''errors'', PList [PStr ''not found''])]"
  let ?resp = "\<lparr>status_code = 404, json = ?body\<rparr>"
  let ?run = "fetch (mocked 404 ?body) \<lparr>apikey = PStr ''key''\<rparr> ''/%s/committees/%s''
                [CURRENT_CYCLE, AStr ''C00000000''] [''offset'' \<mapsto> Data (PInt 0)]"
  have r: "received (mocked 404 ?body) ?run = Some ?resp"
    by (rule received_mocked) (simp add: fst_fetch_template)
  have s: "status_code ?resp \<noteq> 200" "status_code ?resp \<noteq> 304" by simp_all
  have j: "json ?resp = PDict [(''errors'', PList [PStr ''not found''])]" by simp
  have m: "map_of [(''errors'', PList [PStr ''not found''])] ''errors''
             = Some (PList (map PStr [''not found'']))" by simp
  from library_errors_caught_as_NytCampfinError[OF r s j m] r show ?thesis by simp
qed

text \<open>
  C9. When the path starts with the base URI once lowercased, the positional arguments
  play no part in the call, and the URL requested (a request goes out as soon as
  \<^verbatim>\<open>offset\<close> is among the keywords) is the path as given followed by one \<^verbatim>\<open>?\<close>.
\<close>

theorem fetch_full_url_ignores_args:
  assumes "startswith (lower path) BASE_URI"
  shows "fetch env self path args kwargs = fetch env self path [] kwargs
       \<and> map url (fst (fetch env self path args kwargs)) =
           (if kwargs ''offset'' = None then [] else [path @ ''?''])"
  using assms by (cases "kwargs ''offset''") (simp_all add: fetch_def Let_def)

text \<open>An upper-case spelling of the base URI, and a \<^verbatim>\<open>%s\<close> that stays in the URL.\<close>

theorem fetch_full_url_ignores_args_witness:
  "startswith (lower ''HTTP://API.NYTimes.com/svc/elections/us/v3/finances/2012/candidates/%s.json'')
     BASE_URI
   \<and> map url (fst (fetch (mocked 200 (PDict [(''results'', PList [])])) \<lparr>apikey = PStr ''key''\<rparr>
        ''HTTP://API.NYTimes.com/svc/elections/us/v3/finances/2012/candidates/%s.json''
        [AStr ''C001''] [''offset'' \<mapsto> Data (PInt 20)]))
     = [''HTTP://API.NYTimes.com/svc/elections/us/v3/finances/2012/candidates/%s.json?'']"
proof -
  let ?path = "''HTTP://API.NYTimes.com/svc/elections/us/v3/finances/2012/candidates/%s.json''"
  have p: "startswith (lower ?path) BASE_URI"
    by (simp add: startswith_def lower_def lower_char_def BASE_URI_def)
  note t = fetch_full_url_ignores_args[OF p, of "mocked 200 (PDict [(''results'', PList [])])"
         "\<lparr>apikey = PStr ''key''\<rparr>" "[AStr ''C001'']" "[''offset'' \<mapsto> Data (PInt 20)]"]
  from t[THEN conjunct2] p show ?thesis by simp
qed

text \<open>
  C10. A success response whose \<^verbatim>\<open>results\<close> is the empty list, met by the default
  extraction (a \<^verbatim>\<open>fetch\<close> without \<^verbatim>\<open>parse\<close>, \<^verbatim>\<open>candidates.get\<close>, \<^verbatim>\<open>committees.get\<close>):
  the call returns nothing and raises \<^verbatim>\<open>IndexError\<close>, which a handler for
  \<^verbatim>\<open>NytCampfinError\<close> does not catch.
\<close>

theorem default_extraction_empty_results_IndexError:
  assumes "status_code resp = 200 \<or> status_code resp = 304"
    and "json resp = PDict kvs" and "map_of kvs ''results'' = Some (PList [])"
  shows "(kwargs ''parse'' = None \<longrightarrow>
            received env (fetch env self path args kwargs) = Some resp \<longrightarrow>
            snd (fetch env self path args kwargs) = Inl (Exn IndexError None))
       \<and> (received env (CandidatesClient_get env self cand_id cycle offset) = Some resp \<longrightarrow>
            snd (CandidatesClient_get env self cand_id cycle offset) = Inl (Exn IndexError None))
       \<and> (received env (CommitteesClient_get env self cmte_id cycle offset) = Some resp \<longrightarrow>
            snd (CommitteesClient_get env self cmte_id cycle offset) = Inl (Exn IndexError None))
       \<and> \<not> catches NytCampfinError (Exn IndexError None)"
proof -
  have f: "first_result (json resp) = Inl (Exn IndexError None)"
    using assms(2,3) by (simp add: first_result_empty)
  have gen: "snd (fetch env self path args kwargs) = Inl (Exn IndexError None)"
    if "kwargs ''parse'' = None" and "received env (fetch env self path args kwargs) = Some resp"
    for path args and kwargs :: kwargs
    using fetch_received[OF that(2)] popped_parse_absent[of kwargs] that(1) f
    by (simp add: respond_success[OF assms(1)])
  have "snd (CandidatesClient_get env self cand_id cycle offset) = Inl (Exn IndexError None)"
    if "received env (CandidatesClient_get env self cand_id cycle offset) = Some resp"
    using that gen[of "[''offset'' \<mapsto> Data offset]" "''/%s/candidates/%s''" "[cycle, cand_id]"]
    by (simp add: CandidatesClient_get_def)
  moreover
  have "snd (CommitteesClient_get env self cmte_id cycle offset) = Inl (Exn IndexError None)"
    if "received env (CommitteesClient_get env self cmte_id cycle offset) = Some resp"
    using that gen[of "[''offset'' \<mapsto> Data offset]" "''/%s/committees/%s''" "[cycle, cmte_id]"]
    by (simp add: CommitteesClient_get_def)
  ultimately show ?thesis using gen index_error_not_campfin by blast
qed

theorem default_extraction_empty_results_IndexError_witness:
  "received (mocked 200 (PDict [(''results'', PList [])]))
     (CommitteesClient_get (mocked 200 (PDict [(''results'', PList [])]))
        (committees (NytCampfin_init (PStr ''key''))) (AStr ''C00000000'') CURRENT_CYCLE (PInt 0))
     = Some \<lparr>status_code = 200, json = PDict [(''results'', PList [])]\<rparr>
   \<and> snd (CommitteesClient_get (mocked 200 (PDict [(''results'', PList [])]))
        (committees (NytCampfin_init (PStr ''key''))) (AStr ''C00000000'') CURRENT_CYCLE (PInt 0))
     = Inl (Exn IndexError None)
   \<and> \<not> catches NytCampfinError (Exn IndexError None)"
proof -
  let ?body = "PDict [(''results'', PList [])]"
  let ?resp = "\<lparr>status_code = 200, json = ?body\<rparr>"
  let ?self = "committees (NytCampfin_init (PStr ''key''))"
  let ?run = "CommitteesClient_get (mocked 200 ?body) ?self (AStr ''C00000000'') CURRENT_CYCLE (PInt 0)"
  have r: "received (mocked 200 ?body) ?run = Some ?resp"
    by (rule received_mocked) (simp add: CommitteesClient_get_def fst_fetch_template)
  have s: "status_code ?resp = 200 \<or> status_code ?resp = 304" by simp
  have j: "json ?resp = PDict [(''results'', PList [])]" by simp
  have m: "map_of [(''results'', PList [])] ''results'' = Some (PList [])" by simp
  from default_extraction_empty_results_IndexError[OF s j m,
         where env = "mocked 200 ?body" and self = ?self and cmte_id = "AStr ''C00000000''"
           and cycle = CURRENT_CYCLE and offset = "PInt 0"] r
  show ?thesis by simp
qed

end
